theory Spec2Isabelle
  imports Main "HOL-Library.Word" "HOL-Library.Sublist" "HOL-Library.AList"
begin

unbundle bit_operations_syntax

section \<open>Python values used by the license client\<close>

text \<open>
  The client is the class \<open>LicenseClient\<close> of \<open>src/examples/python.py\<close>.
  A Python \<open>bytes\<close> object is a list of 8-bit words, a Python \<open>str\<close> is the list of
  its Unicode code points, and every exception the code can meet is a value of \<open>exn\<close>;
  all of them are subclasses of Python's \<open>Exception\<close>, which is what the two
  \<open>except Exception\<close> clauses of the source catch.
\<close>

type_synonym byte = "8 word"
type_synonym pybytes = "byte list"
type_synonym pystr = "nat list"

datatype exn =
    IndexError | KeyError | ValueError | TypeError | AttributeError
  | OverflowError | OSError | UnicodeEncodeError | UnicodeDecodeError
  | JSONDecodeError | URLError

text \<open>A string literal of the source, as code points.\<close>

definition lit :: "string \<Rightarrow> pystr" where
  "lit s = map of_char s"

text \<open>Sequencing of a step that may raise with the rest of the block.\<close>

definition and_then :: "exn + 'a \<Rightarrow> ('a \<Rightarrow> exn + 'b) \<Rightarrow> exn + 'b" where
  "and_then m f = (case m of Inl e \<Rightarrow> Inl e | Inr x \<Rightarrow> f x)"

subsection \<open>Indexing and slicing\<close>

text \<open>
  \<open>xs[i]\<close>: a negative index counts from the end, an index out of range raises
  \<open>IndexError\<close>.
\<close>

definition py_index :: "'a list \<Rightarrow> int \<Rightarrow> exn + 'a" where
  "py_index xs i =
     (if 0 \<le> i \<and> i < int (length xs) then Inr (xs ! nat i)
      else if i < 0 \<and> - int (length xs) \<le> i then Inr (xs ! nat (int (length xs) + i))
      else Inl IndexError)"

text \<open>
  \<open>xs[:stop]\<close>: a negative stop counts from the end, and the bound is clamped to
  \<open>0 .. len(xs)\<close>; slicing never raises.
\<close>

definition py_slice_to :: "'a list \<Rightarrow> int \<Rightarrow> 'a list" where
  "py_slice_to xs stop =
     (let n = int (length xs);
          s = (if stop < 0 then max 0 (n + stop) else min stop n)
      in take (nat s) xs)"

section \<open>PKCS7 padding\<close>

text \<open>
  \<open>_pad_data\<close>: \<open>padding_size\<close> is between 1 and 16, so \<open>bytes([padding_size] *
  padding_size)\<close> never leaves the range of a byte.
\<close>

definition block_size :: nat where
  "block_size = 16"

definition pad_data :: "pybytes \<Rightarrow> pybytes" where
  "pad_data data =
     (let padding_size = block_size - (length data mod block_size);
          padding = replicate padding_size (of_nat padding_size :: byte)
      in data @ padding)"

text \<open>
  \<open>_unpad_data\<close>: \<open>data[-1]\<close> raises on the empty string; \<open>data[:-padding_size]\<close>
  is a slice and does not raise. With \<open>padding_size = 0\<close> the slice is \<open>data[:0]\<close>.
\<close>

definition unpad_data :: "pybytes \<Rightarrow> exn + pybytes" where
  "unpad_data data =
     and_then (py_index data (- 1))
       (\<lambda>padding_size. Inr (py_slice_to data (- int (unat padding_size))))"


section \<open>Text and byte conversions of the Python library\<close>

subsection \<open>\<open>str.encode()\<close> and \<open>bytes.decode('utf-8')\<close>\<close>

text \<open>
  The strict UTF-8 codec. A code point of the surrogate range cannot be encoded:
  \<open>str.encode\<close> raises \<open>UnicodeEncodeError\<close>. A Python string holds no code point
  above \<open>0x10FFFF\<close>; the last branch is there to make the function total.
\<close>

definition utf8_encode_cp :: "nat \<Rightarrow> exn + pybytes" where
  "utf8_encode_cp c =
     (if c < 0x80 then Inr [of_nat c]
      else if c < 0x800 then
        Inr [of_nat (0xC0 + c div 0x40), of_nat (0x80 + c mod 0x40)]
      else if 0xD800 \<le> c \<and> c < 0xE000 then Inl UnicodeEncodeError
      else if c < 0x10000 then
        Inr [of_nat (0xE0 + c div 0x1000), of_nat (0x80 + c div 0x40 mod 0x40),
             of_nat (0x80 + c mod 0x40)]
      else if c < 0x110000 then
        Inr [of_nat (0xF0 + c div 0x40000), of_nat (0x80 + c div 0x1000 mod 0x40),
             of_nat (0x80 + c div 0x40 mod 0x40), of_nat (0x80 + c mod 0x40)]
      else Inl UnicodeEncodeError)"

fun str_encode :: "pystr \<Rightarrow> exn + pybytes" where
  "str_encode [] = Inr []"
| "str_encode (c # cs) =
     and_then (utf8_encode_cp c) (\<lambda>b. and_then (str_encode cs) (\<lambda>bs. Inr (b @ bs)))"

definition is_cont :: "byte \<Rightarrow> bool" where
  "is_cont b = (0x80 \<le> unat b \<and> unat b < 0xC0)"

text \<open>
  The decoder refuses a truncated sequence, a byte that is no continuation byte where
  one is due, an overlong form, a surrogate and a value above \<open>0x10FFFF\<close>.
\<close>

fun bytes_decode :: "pybytes \<Rightarrow> exn + pystr" where
  "bytes_decode [] = Inr []"
| "bytes_decode (b0 # bs) =
     (if unat b0 < 0x80 then
        and_then (bytes_decode bs) (\<lambda>r. Inr (unat b0 # r))
      else if 0xC2 \<le> unat b0 \<and> unat b0 < 0xE0 then
        (case bs of
           b1 # bs1 \<Rightarrow>
             if is_cont b1 then
               and_then (bytes_decode bs1)
                 (\<lambda>r. Inr (((unat b0 - 0xC0) * 0x40 + (unat b1 - 0x80)) # r))
             else Inl UnicodeDecodeError
         | _ \<Rightarrow> Inl UnicodeDecodeError)
      else if 0xE0 \<le> unat b0 \<and> unat b0 < 0xF0 then
        (case bs of
           b1 # b2 # bs2 \<Rightarrow>
             if is_cont b1 \<and> is_cont b2
                \<and> 0x800 \<le> (unat b0 - 0xE0) * 0x1000 + (unat b1 - 0x80) * 0x40 + (unat b2 - 0x80)
                \<and> \<not> (0xD800 \<le> (unat b0 - 0xE0) * 0x1000 + (unat b1 - 0x80) * 0x40 + (unat b2 - 0x80)
                      \<and> (unat b0 - 0xE0) * 0x1000 + (unat b1 - 0x80) * 0x40 + (unat b2 - 0x80) < 0xE000)
             then
               and_then (bytes_decode bs2)
                 (\<lambda>r. Inr (((unat b0 - 0xE0) * 0x1000 + (unat b1 - 0x80) * 0x40
                             + (unat b2 - 0x80)) # r))
             else Inl UnicodeDecodeError
         | _ \<Rightarrow> Inl UnicodeDecodeError)
      else if 0xF0 \<le> unat b0 \<and> unat b0 < 0xF5 then
        (case bs of
           b1 # b2 # b3 # bs3 \<Rightarrow>
             if is_cont b1 \<and> is_cont b2 \<and> is_cont b3
                \<and> 0x10000 \<le> (unat b0 - 0xF0) * 0x40000 + (unat b1 - 0x80) * 0x1000
                               + (unat b2 - 0x80) * 0x40 + (unat b3 - 0x80)
                \<and> (unat b0 - 0xF0) * 0x40000 + (unat b1 - 0x80) * 0x1000
                      + (unat b2 - 0x80) * 0x40 + (unat b3 - 0x80) < 0x110000
             then
               and_then (bytes_decode bs3)
                 (\<lambda>r. Inr (((unat b0 - 0xF0) * 0x40000 + (unat b1 - 0x80) * 0x1000
                             + (unat b2 - 0x80) * 0x40 + (unat b3 - 0x80)) # r))
             else Inl UnicodeDecodeError
         | _ \<Rightarrow> Inl UnicodeDecodeError)
      else Inl UnicodeDecodeError)"

subsection \<open>\<open>bytes.hex()\<close> and \<open>bytes.fromhex()\<close>\<close>

definition hex_char :: "nat \<Rightarrow> nat" where
  "hex_char n = (if n < 10 then 48 + n else 87 + n)"

definition bytes_hex :: "pybytes \<Rightarrow> pystr" where
  "bytes_hex bs = concat (map (\<lambda>b. [hex_char (unat b div 16), hex_char (unat b mod 16)]) bs)"

definition hex_value :: "nat \<Rightarrow> nat option" where
  "hex_value c =
     (if 48 \<le> c \<and> c \<le> 57 then Some (c - 48)
      else if 97 \<le> c \<and> c \<le> 102 then Some (c - 87)
      else if 65 \<le> c \<and> c \<le> 70 then Some (c - 55)
      else None)"

definition is_space :: "nat \<Rightarrow> bool" where
  "is_space c = (c = 32 \<or> (9 \<le> c \<and> c \<le> 13))"

text \<open>
  \<open>bytes.fromhex\<close> skips ASCII whitespace in front of a pair of hexadecimal digits and
  raises \<open>ValueError\<close> on anything else, also on a digit left alone.
\<close>

fun bytes_fromhex :: "pystr \<Rightarrow> exn + pybytes" where
  "bytes_fromhex [] = Inr []"
| "bytes_fromhex [c] = (if is_space c then Inr [] else Inl ValueError)"
| "bytes_fromhex (c # d # cs) =
     (if is_space c then bytes_fromhex (d # cs)
      else (case (hex_value c, hex_value d) of
              (Some h, Some l) \<Rightarrow>
                and_then (bytes_fromhex cs) (\<lambda>r. Inr (of_nat (16 * h + l) # r))
            | _ \<Rightarrow> Inl ValueError))"

subsection \<open>\<open>str.split(sep)\<close> with a separator of one character\<close>

fun py_split :: "nat \<Rightarrow> pystr \<Rightarrow> pystr list" where
  "py_split sep [] = [[]]"
| "py_split sep (c # cs) =
     (if c = sep then [] # py_split sep cs
      else (case py_split sep cs of
              p # ps \<Rightarrow> (c # p) # ps
            | [] \<Rightarrow> [[c]]))"

text \<open>\<open>a, b = parts\<close>: unpacking into two names raises unless there are two parts.\<close>

definition unpack2 :: "'a list \<Rightarrow> exn + ('a \<times> 'a)" where
  "unpack2 parts = (case parts of [a, b] \<Rightarrow> Inr (a, b) | _ \<Rightarrow> Inl ValueError)"

section \<open>JSON values, dictionaries and timestamps\<close>

text \<open>
  What \<open>json.loads\<close> returns and what \<open>license_info\<close> holds. A dictionary is the
  list of its items in insertion order, read through the first item of a key. A float
  \<open>PyFloat m e\<close> stands for \<open>m * 2 ^ e\<close>; the code only ever tests a number for
  being zero.
\<close>

datatype pyfloat = PyFloat int int | PyInf bool | PyNaN

datatype json =
    JNull
  | JBool bool
  | JInt int
  | JFloat pyfloat
  | JStr pystr
  | JList "json list"
  | JDict "(pystr \<times> json) list"

text \<open>The truth value of an object in a condition.\<close>

fun py_truthy :: "json \<Rightarrow> bool" where
  "py_truthy JNull = False"
| "py_truthy (JBool b) = b"
| "py_truthy (JInt i) = (i \<noteq> 0)"
| "py_truthy (JFloat (PyFloat m e)) = (m \<noteq> 0)"
| "py_truthy (JFloat _) = True"
| "py_truthy (JStr s) = (s \<noteq> [])"
| "py_truthy (JList xs) = (xs \<noteq> [])"
| "py_truthy (JDict kv) = (kv \<noteq> [])"

text \<open>
  \<open>k in x\<close> for a string \<open>k\<close>: a key test on a dictionary, an element test on a
  list, a substring test on a string, \<open>TypeError\<close> on anything else.
\<close>

fun py_contains :: "pystr \<Rightarrow> json \<Rightarrow> exn + bool" where
  "py_contains k (JDict kv) = Inr (map_of kv k \<noteq> None)"
| "py_contains k (JList xs) = Inr (JStr k \<in> set xs)"
| "py_contains k (JStr s) = Inr (sublist k s)"
| "py_contains k _ = Inl TypeError"

text \<open>\<open>x[k]\<close> for a string \<open>k\<close>: only a dictionary can be subscripted by a string.\<close>

fun py_getitem :: "json \<Rightarrow> pystr \<Rightarrow> exn + json" where
  "py_getitem (JDict kv) k = (case map_of kv k of None \<Rightarrow> Inl KeyError | Some v \<Rightarrow> Inr v)"
| "py_getitem _ k = Inl TypeError"

text \<open>\<open>x[k] = v\<close> for a string \<open>k\<close>.\<close>

fun py_setitem :: "json \<Rightarrow> pystr \<Rightarrow> json \<Rightarrow> exn + json" where
  "py_setitem (JDict kv) k v = Inr (JDict (AList.update k v kv))"
| "py_setitem _ k v = Inl TypeError"

text \<open>\<open>x.get(k, default)\<close>: only a dictionary has the method.\<close>

fun py_get :: "json \<Rightarrow> pystr \<Rightarrow> json \<Rightarrow> exn + json" where
  "py_get (JDict kv) k dflt = Inr (case map_of kv k of None \<Rightarrow> dflt | Some v \<Rightarrow> v)"
| "py_get _ k dflt = Inl AttributeError"

subsection \<open>\<open>datetime\<close>\<close>

text \<open>
  A \<open>datetime\<close> is counted in microseconds from \<open>datetime.min\<close>, the first instant of
  the year 1; \<open>datetime.max\<close> is the last microsecond of the year 9999. A naive value
  has no time zone, an aware one carries its offset from UTC.
\<close>

datatype pydatetime = Naive int | Aware int int

definition datetime_max :: int where
  "datetime_max = 315537897599999999"

definition timedelta_days :: "int \<Rightarrow> int" where
  "timedelta_days d = d * 86400000000"

text \<open>\<open>t + delta\<close> raises \<open>OverflowError\<close> when the sum leaves the range of dates.\<close>

fun dt_add :: "pydatetime \<Rightarrow> int \<Rightarrow> exn + pydatetime" where
  "dt_add (Naive t) d =
     (if 0 \<le> t + d \<and> t + d \<le> datetime_max then Inr (Naive (t + d)) else Inl OverflowError)"
| "dt_add (Aware t off) d =
     (if 0 \<le> t + d \<and> t + d \<le> datetime_max then Inr (Aware (t + d) off)
      else Inl OverflowError)"

text \<open>\<open>a > b\<close>: a naive and an aware value cannot be ordered.\<close>

fun dt_gt :: "pydatetime \<Rightarrow> pydatetime \<Rightarrow> exn + bool" where
  "dt_gt (Naive a) (Naive b) = Inr (a > b)"
| "dt_gt (Aware a oa) (Aware b ob) = Inr (a - oa > b - ob)"
| "dt_gt _ _ = Inl TypeError"

section \<open>The libraries the client calls\<close>

text \<open>
  The hash, the block cipher, the JSON codec and the ISO 8601 parser and printer are
  not code of the client. They are the fields of \<open>pylib\<close>, and every function of the
  client takes the library as its first argument. \<open>aes_encrypt_block\<close> and
  \<open>aes_decrypt_block\<close> take the key and one block of 16 bytes.
\<close>

record pylib =
  sha256 :: "pybytes \<Rightarrow> pybytes"
  aes_encrypt_block :: "pybytes \<Rightarrow> pybytes \<Rightarrow> pybytes"
  aes_decrypt_block :: "pybytes \<Rightarrow> pybytes \<Rightarrow> pybytes"
  json_dumps :: "json \<Rightarrow> exn + pystr"
  json_loads :: "pystr \<Rightarrow> exn + json"
  fromisoformat :: "pystr \<Rightarrow> exn + pydatetime"
  isoformat :: "int \<Rightarrow> pystr"

text \<open>\<open>datetime.fromisoformat(x)\<close> raises \<open>TypeError\<close> unless \<open>x\<close> is a string.\<close>

fun py_fromisoformat :: "pylib \<Rightarrow> json \<Rightarrow> exn + pydatetime" where
  "py_fromisoformat L (JStr s) = fromisoformat L s"
| "py_fromisoformat L _ = Inl TypeError"

subsection \<open>\<open>Cipher(algorithms.AES(key), modes.CBC(iv))\<close>\<close>

text \<open>
  Building the cipher raises \<open>ValueError\<close> on a key that is not 128, 192 or 256 bits
  long and on an initialisation vector that is not one block long.
\<close>

definition new_cipher :: "pybytes \<Rightarrow> pybytes \<Rightarrow> exn + unit" where
  "new_cipher key iv =
     (if length key \<noteq> 16 \<and> length key \<noteq> 24 \<and> length key \<noteq> 32 then Inl ValueError
      else if length iv \<noteq> 16 then Inl ValueError
      else Inr ())"

definition xor_bytes :: "pybytes \<Rightarrow> pybytes \<Rightarrow> pybytes" where
  "xor_bytes xs ys = map (\<lambda>(x, y). x XOR y) (zip xs ys)"

text \<open>Cipher block chaining over the block function \<open>E\<close>, and its inverse over \<open>D\<close>.\<close>

function cbc_encrypt :: "(pybytes \<Rightarrow> pybytes) \<Rightarrow> pybytes \<Rightarrow> pybytes \<Rightarrow> pybytes" where
  "cbc_encrypt E prev data =
     (if data = [] then []
      else E (xor_bytes (take 16 data) prev)
           @ cbc_encrypt E (E (xor_bytes (take 16 data) prev)) (drop 16 data))"
  by pat_completeness auto
termination
  by (relation "measure (\<lambda>(E, prev, data). length data)") auto

declare cbc_encrypt.simps [simp del]

function cbc_decrypt :: "(pybytes \<Rightarrow> pybytes) \<Rightarrow> pybytes \<Rightarrow> pybytes \<Rightarrow> pybytes" where
  "cbc_decrypt D prev data =
     (if data = [] then []
      else xor_bytes (D (take 16 data)) prev
           @ cbc_decrypt D (take 16 data) (drop 16 data))"
  by pat_completeness auto
termination
  by (relation "measure (\<lambda>(D, prev, data). length data)") auto

declare cbc_decrypt.simps [simp del]

text \<open>
  \<open>update(data) + finalize()\<close>: \<open>finalize\<close> raises \<open>ValueError\<close> when the data is
  not a whole number of blocks.
\<close>

definition encryptor_run :: "pylib \<Rightarrow> pybytes \<Rightarrow> pybytes \<Rightarrow> pybytes \<Rightarrow> exn + pybytes" where
  "encryptor_run L key iv data =
     (if length data mod 16 \<noteq> 0 then Inl ValueError
      else Inr (cbc_encrypt (aes_encrypt_block L key) iv data))"

definition decryptor_run :: "pylib \<Rightarrow> pybytes \<Rightarrow> pybytes \<Rightarrow> pybytes \<Rightarrow> exn + pybytes" where
  "decryptor_run L key iv data =
     (if length data mod 16 \<noteq> 0 then Inl ValueError
      else Inr (cbc_decrypt (aes_decrypt_block L key) iv data))"

section \<open>Encryption of the cache\<close>

text \<open>
  \<open>_encrypt_aes\<close> and \<open>_decrypt_aes\<close>, in the order of their statements: the cipher
  is built first, then the data is encoded, padded and encrypted, or decrypted, unpadded
  and decoded. Both are only called behind the \<open>HAS_CRYPTO\<close> guard.
\<close>

definition encrypt_aes :: "pylib \<Rightarrow> pystr \<Rightarrow> pybytes \<Rightarrow> pybytes \<Rightarrow> exn + pybytes" where
  "encrypt_aes L data key iv =
     and_then (new_cipher key iv) (\<lambda>_.
     and_then (str_encode data) (\<lambda>raw.
     encryptor_run L key iv (pad_data raw)))"

definition decrypt_aes :: "pylib \<Rightarrow> pybytes \<Rightarrow> pybytes \<Rightarrow> pybytes \<Rightarrow> exn + pystr" where
  "decrypt_aes L data key iv =
     and_then (new_cipher key iv) (\<lambda>_.
     and_then (decryptor_run L key iv data) (\<lambda>decrypted_data.
     and_then (unpad_data decrypted_data) (\<lambda>unpadded_data.
     bytes_decode unpadded_data)))"

text \<open>Encrypting and then decrypting under the same key and vector.\<close>

definition encrypt_then_decrypt :: "pylib \<Rightarrow> pystr \<Rightarrow> pybytes \<Rightarrow> pybytes \<Rightarrow> exn + pystr" where
  "encrypt_then_decrypt L payload key iv =
     and_then (encrypt_aes L payload key iv) (\<lambda>encrypted. decrypt_aes L encrypted key iv)"

section \<open>The client and its environment\<close>

text \<open>
  The attributes of \<open>LicenseClient\<close> the validation reads and writes. \<open>license_key\<close>
  is \<open>None\<close> unless the caller passed one; \<open>license_info\<close> is \<open>None\<close> until a
  validation sets it.
\<close>

record client =
  license_key :: "pystr option"
  hwid :: pystr
  license_info :: "json option"
  offline_mode :: bool

text \<open>What the client does to the outside, in the order it does it.\<close>

datatype event = NetRequest | CacheExists | CacheRead | CacheWrite | CacheChmod

text \<open>
  The cache file: it is not there, or it is a text file, or it is there and opening or
  reading it as text raises (a directory, a file the user may not read, bytes that are
  no text).
\<close>

datatype fnode = NoFile | File pystr | Unreadable

text \<open>
  The environment of one call. \<open>server\<close> is the outcome of the online attempt, from
  building the request to parsing the answer with \<open>json.loads\<close>: the exception it
  raised, or the parsed answer. \<open>cache_writable\<close> and \<open>chmod_ok\<close> say whether
  \<open>open(cache_file, 'w')\<close> and \<open>os.chmod\<close> succeed; \<open>utcnow\<close> is the clock
  (\<open>datetime.utcnow()\<close> is naive), \<open>urandom16\<close> what \<open>os.urandom(16)\<close> returns;
  \<open>events\<close> is the log of what was done. Printing to the console is not modelled.
\<close>

record world =
  HAS_CRYPTO :: bool
  server :: "exn + json"
  cache_file :: fnode
  cache_writable :: bool
  chmod_ok :: bool
  utcnow :: int
  urandom16 :: pybytes
  events :: "event list"

definition log_event :: "event \<Rightarrow> world \<Rightarrow> world" where
  "log_event ev w = w\<lparr>events := events w @ [ev]\<rparr>"

definition OFFLINE_GRACE_DAYS :: int where
  "OFFLINE_GRACE_DAYS = 7"

text \<open>\<open>_get_encryption_key\<close>: the SHA-256 digest of the encoded hardware id.\<close>

definition get_encryption_key :: "pylib \<Rightarrow> client \<Rightarrow> exn + pybytes" where
  "get_encryption_key L c = and_then (str_encode (hwid c)) (\<lambda>b. Inr (sha256 L b))"

section \<open>Offline validation\<close>

text \<open>
  The method \<open>validate_offline\<close> that is in force is the second definition of that
  name in the class (the first, a placeholder, is replaced by it when the class body is
  executed). Its \<open>try\<close> block is modelled in four parts, in the order of the source.

  Parsing the file's text: \<open>data.split(':')\<close>, the unpacking into two names and the
  two calls of \<open>bytes.fromhex\<close>.
\<close>

definition parse_cache :: "pystr \<Rightarrow> exn + (pybytes \<times> pybytes)" where
  "parse_cache data =
     and_then (unpack2 (py_split 58 data)) (\<lambda>(iv_hex, encrypted_data_hex).
     and_then (bytes_fromhex iv_hex) (\<lambda>iv.
     and_then (bytes_fromhex encrypted_data_hex) (\<lambda>encrypted_data.
     Inr (iv, encrypted_data))))"

text \<open>Deriving the key, decrypting and \<open>json.loads\<close>.\<close>

definition decrypt_cache :: "pylib \<Rightarrow> client \<Rightarrow> pybytes \<Rightarrow> pybytes \<Rightarrow> exn + json" where
  "decrypt_cache L c iv encrypted_data =
     and_then (get_encryption_key L c) (\<lambda>key.
     and_then (decrypt_aes L encrypted_data key iv) (\<lambda>decrypted.
     json_loads L decrypted))"

text \<open>
  The checks on the decrypted record: \<open>Inr False\<close> is one of the three
  \<open>return False\<close>, \<open>Inr True\<close> means that the record passed them all.
\<close>

definition offline_checks :: "pylib \<Rightarrow> int \<Rightarrow> json \<Rightarrow> exn + bool" where
  "offline_checks L now cache =
     and_then (py_contains (lit ''validatedAt'') cache) (\<lambda>has_validated.
     and_then (if has_validated then py_contains (lit ''expiresAt'') cache else Inr False)
       (\<lambda>has_both.
     if \<not> has_both then Inr False
     else
       and_then (py_getitem cache (lit ''validatedAt'')) (\<lambda>v.
       and_then (py_fromisoformat L v) (\<lambda>validated_at.
       and_then (dt_add validated_at (timedelta_days OFFLINE_GRACE_DAYS)) (\<lambda>offline_expires.
       and_then (dt_gt (Naive now) offline_expires) (\<lambda>grace_over.
       if grace_over then Inr False
       else
         and_then (py_getitem cache (lit ''expiresAt'')) (\<lambda>expires_at.
         and_then (if py_truthy expires_at
                   then and_then (py_fromisoformat L expires_at) (\<lambda>t. dt_gt (Naive now) t)
                   else Inr False) (\<lambda>license_over.
         Inr (\<not> license_over)))))))))"

text \<open>
  The acceptance rule in the words of the specification, for a record whose
  \<open>validatedAt\<close> is the instant \<open>validatedAt\<close> and whose \<open>expiresAt\<close> is absent
  (\<open>None\<close>) or an instant: \<open>now - validatedAt <= OFFLINE_GRACE_DAYS\<close> and
  (\<open>expiresAt\<close> is absent or \<open>now <= expiresAt\<close>).
\<close>

definition spec_offline_accept :: "int \<Rightarrow> int \<Rightarrow> int option \<Rightarrow> bool" where
  "spec_offline_accept now validatedAt expiresAt =
     (now - validatedAt \<le> timedelta_days OFFLINE_GRACE_DAYS
      \<and> (case expiresAt of None \<Rightarrow> True | Some e \<Rightarrow> now \<le> e))"

text \<open>
  The three assignments at the end: \<open>self.license_info = cache\<close>,
  \<open>self.license_info['offlineMode'] = True\<close>, \<open>self.offline_mode = True\<close>. The
  client is returned as it is when a statement raises.
\<close>

definition accept_cache :: "json \<Rightarrow> client \<Rightarrow> (exn + bool) \<times> client" where
  "accept_cache cache c =
     (case py_setitem cache (lit ''offlineMode'') (JBool True) of
        Inl e \<Rightarrow> (Inl e, c\<lparr>license_info := Some cache\<rparr>)
      | Inr info \<Rightarrow> (Inr True, c\<lparr>license_info := Some info, offline_mode := True\<rparr>))"

text \<open>The \<open>try\<close> block as a whole.\<close>

definition validate_offline_try ::
  "pylib \<Rightarrow> client \<Rightarrow> world \<Rightarrow> (exn + bool) \<times> client \<times> world" where
  "validate_offline_try L c w =
     (case cache_file w of
        NoFile \<Rightarrow> (Inr False, c, log_event CacheExists w)
      | Unreadable \<Rightarrow> (Inl OSError, c, log_event CacheRead (log_event CacheExists w))
      | File data \<Rightarrow>
          (let w' = log_event CacheRead (log_event CacheExists w) in
           case parse_cache data of
             Inl e \<Rightarrow> (Inl e, c, w')
           | Inr (iv, encrypted_data) \<Rightarrow>
               if \<not> HAS_CRYPTO w then (Inr False, c, w')
               else
                 (case decrypt_cache L c iv encrypted_data of
                    Inl e \<Rightarrow> (Inl e, c, w')
                  | Inr cache \<Rightarrow>
                      (case offline_checks L (utcnow w) cache of
                         Inl e \<Rightarrow> (Inl e, c, w')
                       | Inr False \<Rightarrow> (Inr False, c, w')
                       | Inr True \<Rightarrow>
                           (case accept_cache cache c of (r, c') \<Rightarrow> (r, c', w'))))))"

text \<open>\<open>except Exception\<close>: the message is printed and the method returns \<open>False\<close>.\<close>

definition validate_offline ::
  "pylib \<Rightarrow> client \<Rightarrow> world \<Rightarrow> (exn + bool) \<times> client \<times> world" where
  "validate_offline L c w =
     (case validate_offline_try L c w of
        (Inl e, c', w') \<Rightarrow> (Inr False, c', w')
      | (Inr b, c', w') \<Rightarrow> (Inr b, c', w'))"

section \<open>Saving the cache\<close>

text \<open>
  The text \<open>save_cache\<close> writes: the hexadecimal forms of the vector and of the
  encrypted JSON text, with a colon between them.
\<close>

definition cache_text :: "pylib \<Rightarrow> client \<Rightarrow> world \<Rightarrow> json \<Rightarrow> exn + pystr" where
  "cache_text L c w info =
     and_then (get_encryption_key L c) (\<lambda>key.
     and_then (json_dumps L info) (\<lambda>json_data.
     and_then (encrypt_aes L json_data key (urandom16 w)) (\<lambda>encrypted_data.
     Inr (bytes_hex (urandom16 w) @ [58] @ bytes_hex encrypted_data))))"

definition save_cache_try :: "pylib \<Rightarrow> client \<Rightarrow> world \<Rightarrow> (exn + bool) \<times> world" where
  "save_cache_try L c w =
     (case license_info c of
        None \<Rightarrow> (Inr False, w)
      | Some info \<Rightarrow>
          if \<not> py_truthy info then (Inr False, w)
          else
            (case py_get info (lit ''valid'') JNull of
               Inl e \<Rightarrow> (Inl e, w)
             | Inr valid \<Rightarrow>
                 if \<not> py_truthy valid then (Inr False, w)
                 else if \<not> HAS_CRYPTO w then (Inr False, w)
                 else
                   (case cache_text L c w info of
                      Inl e \<Rightarrow> (Inl e, w)
                    | Inr encrypted_combined \<Rightarrow>
                        if \<not> cache_writable w then (Inl OSError, log_event CacheWrite w)
                        else
                          (let w' = log_event CacheChmod
                                      ((log_event CacheWrite w)
                                         \<lparr>cache_file := File encrypted_combined\<rparr>)
                           in if chmod_ok w then (Inr True, w') else (Inl OSError, w')))))"

definition save_cache :: "pylib \<Rightarrow> client \<Rightarrow> world \<Rightarrow> (exn + bool) \<times> world" where
  "save_cache L c w =
     (case save_cache_try L c w of
        (Inl e, w') \<Rightarrow> (Inr False, w')
      | (Inr b, w') \<Rightarrow> (Inr b, w'))"

section \<open>Online validation\<close>

text \<open>
  The record built from a positive answer; \<open>validatedAt\<close> is the clock's reading in
  ISO format.
\<close>

definition valid_record :: "pylib \<Rightarrow> world \<Rightarrow> json \<Rightarrow> exn + json" where
  "valid_record L w response_data =
     and_then (py_get response_data (lit ''expiresAt'') JNull) (\<lambda>expires_at.
     and_then (py_get response_data (lit ''features'') (JList [])) (\<lambda>features.
     and_then (py_get response_data (lit ''owner'') (JStr (lit ''Unknown''))) (\<lambda>owner.
     Inr (JDict [(lit ''valid'', JBool True),
                 (lit ''expiresAt'', expires_at),
                 (lit ''features'', features),
                 (lit ''owner'', owner),
                 (lit ''validatedAt'', JStr (isoformat L (utcnow w))),
                 (lit ''offlineMode'', JBool False)]))))"

definition invalid_record :: "json \<Rightarrow> exn + json" where
  "invalid_record response_data =
     and_then (py_get response_data (lit ''error'') (JStr (lit ''License validation failed'')))
       (\<lambda>err. Inr (JDict [(lit ''valid'', JBool False), (lit ''error'', err)]))"

text \<open>
  The \<open>try\<close> block of \<open>validate\<close>. The request is logged when the block is entered;
  whatever is raised before the answer is parsed is the \<open>Inl\<close> of \<open>server\<close>.
\<close>

definition validate_try ::
  "pylib \<Rightarrow> client \<Rightarrow> world \<Rightarrow> (exn + bool) \<times> client \<times> world" where
  "validate_try L c w =
     (let w1 = log_event NetRequest w in
      case server w of
        Inl e \<Rightarrow> (Inl e, c, w1)
      | Inr response_data \<Rightarrow>
          (case py_get response_data (lit ''valid'') JNull of
             Inl e \<Rightarrow> (Inl e, c, w1)
           | Inr valid \<Rightarrow>
               if py_truthy valid then
                 (case valid_record L w1 response_data of
                    Inl e \<Rightarrow> (Inl e, c, w1)
                  | Inr info \<Rightarrow>
                      (let c1 = c\<lparr>license_info := Some info, offline_mode := False\<rparr> in
                       case save_cache L c1 w1 of
                         (Inl e, w2) \<Rightarrow> (Inl e, c1, w2)
                       | (Inr saved, w2) \<Rightarrow> (Inr True, c1, w2)))
               else
                 (case invalid_record response_data of
                    Inl e \<Rightarrow> (Inl e, c, w1)
                  | Inr info \<Rightarrow> (Inr False, c\<lparr>license_info := Some info\<rparr>, w1))))"

text \<open>
  \<open>validate\<close>: without a license key it returns at once; an exception of the
  \<open>try\<close> block leads to \<open>validate_offline\<close>, whose answer is returned. An
  exception that \<open>validate_offline\<close> let through would leave \<open>validate\<close> too.
\<close>

definition validate :: "pylib \<Rightarrow> client \<Rightarrow> world \<Rightarrow> (exn + bool) \<times> client \<times> world" where
  "validate L c w =
     (if license_key c = None \<or> license_key c = Some [] then (Inr False, c, w)
      else
        (case validate_try L c w of
           (Inr b, c1, w1) \<Rightarrow> (Inr b, c1, w1)
         | (Inl e, c1, w1) \<Rightarrow>
             (case validate_offline L c1 w1 of
                (Inl e', c2, w2) \<Rightarrow> (Inl e', c2, w2)
              | (Inr True, c2, w2) \<Rightarrow> (Inr True, c2, w2)
              | (Inr False, c2, w2) \<Rightarrow> (Inr False, c2, w2))))"

section \<open>A small library and environment to run the client on\<close>

text \<open>
  An instance of the library on which the definitions above can be evaluated: the hash
  pads or cuts its input to 32 bytes, the block cipher adds the first half of the key to
  the block bit by bit, and the JSON codec and the date parser know the few texts below.
\<close>

definition demo_text_null :: pystr where
  \<open>demo_text_null = lit ''{"validatedAt":"2024-01-01","expiresAt":null}''\<close>

definition demo_text_absent :: pystr where
  \<open>demo_text_absent = lit ''{"validatedAt":"2024-01-01"}''\<close>

definition demo_text_valid :: pystr where
  \<open>demo_text_valid = lit ''{"valid":true}''\<close>

definition demo_record_null :: json where
  "demo_record_null =
     JDict [(lit ''validatedAt'', JStr (lit ''2024-01-01'')), (lit ''expiresAt'', JNull)]"

definition demo_record_absent :: json where
  "demo_record_absent = JDict [(lit ''validatedAt'', JStr (lit ''2024-01-01''))]"

definition demo_record_valid :: json where
  "demo_record_valid = JDict [(lit ''valid'', JBool True)]"

text \<open>Midnight of 1 January 2024, in microseconds from \<open>datetime.min\<close>.\<close>

definition demo_t0 :: int where
  "demo_t0 = 63839664000000000"

definition demo_lib :: pylib where
  "demo_lib =
     \<lparr> sha256 = (\<lambda>b. take 32 (b @ replicate 32 0)),
       aes_encrypt_block = (\<lambda>key b. xor_bytes b (take 16 key)),
       aes_decrypt_block = (\<lambda>key b. xor_bytes b (take 16 key)),
       json_dumps = (\<lambda>j. if j = demo_record_valid then Inr demo_text_valid
                          else if j = demo_record_null then Inr demo_text_null
                          else Inl TypeError),
       json_loads = (\<lambda>s. if s = demo_text_null then Inr demo_record_null
                          else if s = demo_text_absent then Inr demo_record_absent
                          else if s = demo_text_valid then Inr demo_record_valid
                          else Inl JSONDecodeError),
       fromisoformat = (\<lambda>s. if s = lit ''2024-01-01'' then Inr (Naive demo_t0)
                             else Inl ValueError),
       isoformat = (\<lambda>t. lit ''2024-01-01'') \<rparr>"

definition demo_client :: client where
  "demo_client =
     \<lparr> license_key = Some (lit ''KEY-1''), hwid = lit ''ab12'',
       license_info = None, offline_mode = False \<rparr>"

definition demo_key :: pybytes where
  "demo_key = [0x61, 0x62, 0x31, 0x32] @ replicate 28 0"

definition demo_iv :: pybytes where
  "demo_iv = [1, 2, 3, 4, 5, 6, 7, 8, 9, 10, 11, 12, 13, 14, 15, 16]"

text \<open>
  The cache files hold \<open>demo_text_null\<close> and \<open>demo_text_absent\<close>, encrypted under
  the key of \<open>demo_client\<close> and the vector \<open>demo_iv\<close>.
\<close>

definition demo_file_null :: pystr where
  "demo_file_null =
     lit (''0102030405060708090a0b0c0d0e0f10:''
          @ ''1b424457696f63697d6f6f4d792c3532''
          @ ''48104751445f52444d5e4d615b494d42''
          @ ''40001310052b707e232b210d264a4e41'')"

definition demo_file_absent :: pystr where
  "demo_file_absent =
     lit (''0102030405060708090a0b0c0d0e0f10:''
          @ ''1b424457696f63697d6f6f4d792c3532''
          @ ''48104751445f52444d5e4d307d283136'')"

text \<open>The same files after \<open>bytes.fromhex\<close>: the encrypted halves.\<close>

definition demo_encrypted_null :: pybytes where
  "demo_encrypted_null =
     [0x1b, 0x42, 0x44, 0x57, 0x69, 0x6f, 0x63, 0x69, 0x7d, 0x6f, 0x6f, 0x4d, 0x79, 0x2c, 0x35, 0x32,
      0x48, 0x10, 0x47, 0x51, 0x44, 0x5f, 0x52, 0x44, 0x4d, 0x5e, 0x4d, 0x61, 0x5b, 0x49, 0x4d, 0x42,
      0x40, 0x00, 0x13, 0x10, 0x05, 0x2b, 0x70, 0x7e, 0x23, 0x2b, 0x21, 0x0d, 0x26, 0x4a, 0x4e, 0x41]"

definition demo_encrypted_absent :: pybytes where
  "demo_encrypted_absent =
     [0x1b, 0x42, 0x44, 0x57, 0x69, 0x6f, 0x63, 0x69, 0x7d, 0x6f, 0x6f, 0x4d, 0x79, 0x2c, 0x35, 0x32,
      0x48, 0x10, 0x47, 0x51, 0x44, 0x5f, 0x52, 0x44, 0x4d, 0x5e, 0x4d, 0x30, 0x7d, 0x28, 0x31, 0x36]"

text \<open>The network is down; the clock is given in microseconds after \<open>demo_t0\<close>.\<close>

definition demo_world :: "fnode \<Rightarrow> int \<Rightarrow> world" where
  "demo_world f elapsed =
     \<lparr> HAS_CRYPTO = True, server = Inl URLError, cache_file = f, cache_writable = True,
       chmod_ok = True, utcnow = demo_t0 + elapsed, urandom16 = demo_iv, events = [] \<rparr>"

text \<open>An answer of the server that rejects the license.\<close>

definition demo_rejection :: json where
  "demo_rejection =
     JDict [(lit ''valid'', JBool False), (lit ''error'', JStr (lit ''License revoked''))]"

section \<open>Properties of the padding\<close>

lemma unpad_data_Nil: "unpad_data [] = Inl IndexError"
  by (simp add: unpad_data_def py_index_def and_then_def)

lemma py_slice_to_neg:
  "py_slice_to xs (- int k) = (if k = 0 then [] else take (length xs - k) xs)"
  by (cases "k \<le> length xs") (auto simp: py_slice_to_def Let_def max_def nat_diff_distrib')

lemma unpad_data_nonempty:
  assumes "d \<noteq> []"
  shows "unpad_data d =
           Inr (if unat (last d) = 0 then [] else take (length d - unat (last d)) d)"
proof -
  from assms have idx: "py_index d (- 1) = Inr (last d)"
    by (cases d rule: rev_cases) (simp_all add: py_index_def nat_add_distrib)
  show ?thesis
    unfolding unpad_data_def and_then_def idx
    by (simp only: sum.case py_slice_to_neg)
qed

text \<open>
  C10. For a non-empty byte string \<open>d\<close> whose last byte has the value \<open>k\<close>,
  \<open>_unpad_data\<close> returns \<open>d\<close> without its last \<open>k\<close> bytes and does not raise; when
  \<open>k\<close> is 0 or \<open>k\<close> is at least \<open>len(d)\<close> the result is the empty byte string. It
  raises exactly on the empty input.
\<close>

theorem unpad_data_total_on_nonempty:
  "(d \<noteq> [] \<longrightarrow>
      unpad_data d =
        Inr (if unat (last d) = 0 \<or> length d \<le> unat (last d) then []
             else take (length d - unat (last d)) d))
   \<and> ((\<exists>e. unpad_data d = Inl e) \<longleftrightarrow> d = [])"
proof (cases "d = []")
  case True
  then show ?thesis by (simp add: unpad_data_Nil)
next
  case False
  then show ?thesis by (simp add: unpad_data_nonempty)
qed

theorem unpad_data_total_on_nonempty_witness:
  "[1, 2, 3, 2 :: byte] \<noteq> [] \<and> unpad_data [1, 2, 3, 2] = Inr [1, 2]
   \<and> unpad_data [7, 0 :: byte] = Inr [] \<and> unpad_data [7, 9 :: byte] = Inr []"
  using unpad_data_total_on_nonempty [of "[1, 2, 3, 2]"]
    unpad_data_total_on_nonempty [of "[7, 0]"]
    unpad_data_total_on_nonempty [of "[7, 9]"]
  by simp

section \<open>Properties of the codec and of the cipher\<close>

lemma unpad_pad: "unpad_data (pad_data d) = Inr d"
proof -
  define p where "p = block_size - length d mod block_size"
  have p: "0 < p" "p \<le> 16" by (simp_all add: p_def block_size_def)
  have pd: "pad_data d = d @ replicate p (of_nat p)"
    by (simp add: pad_data_def Let_def p_def)
  have ne: "pad_data d \<noteq> []" using p by (simp add: pd)
  have l: "last (pad_data d) = of_nat p" using p by (simp add: pd)
  have u: "unat (of_nat p :: byte) = p" using p by (simp add: unat_of_nat)
  show ?thesis
    using p by (simp add: unpad_data_nonempty [OF ne] l u) (simp add: pd)
qed

lemma length_pad_data: "length (pad_data d) mod 16 = 0"
proof -
  have "length (pad_data d) = length d + (16 - length d mod 16)"
    by (simp add: pad_data_def Let_def block_size_def)
  then show ?thesis by presburger
qed

lemma base64_digits3:
  "(c div 0x1000) * 0x1000 + (c div 0x40 mod 0x40) * 0x40 + c mod 0x40 = (c::nat)"
proof -
  define q1 where "q1 = c div 0x40"
  have a: "c = q1 * 0x40 + c mod 0x40" by (simp add: q1_def)
  have b: "q1 = (q1 div 0x40) * 0x40 + q1 mod 0x40" by simp
  have d: "c div 0x1000 = q1 div 0x40" by (simp add: q1_def div_mult2_eq)
  show ?thesis unfolding d q1_def [symmetric] using a b by linarith
qed

lemma base64_digits4:
  "(c div 0x40000) * 0x40000 + (c div 0x1000 mod 0x40) * 0x1000
     + (c div 0x40 mod 0x40) * 0x40 + c mod 0x40 = (c::nat)"
proof -
  define q where "q = c div 0x40"
  have a: "c = q * 0x40 + c mod 0x40" by (simp add: q_def)
  have d1: "c div 0x1000 = q div 0x40" by (simp add: q_def div_mult2_eq)
  have d2: "c div 0x40000 = q div 0x1000" by (simp add: q_def div_mult2_eq)
  have "(q div 0x1000) * 0x1000 + (q div 0x40 mod 0x40) * 0x40 + q mod 0x40 = q"
    by (rule base64_digits3)
  then show ?thesis unfolding d1 d2 q_def [symmetric] using a by linarith
qed

lemma decode_1:
  assumes "c < 0x80"
  shows "bytes_decode (of_nat c # rest) = and_then (bytes_decode rest) (\<lambda>r. Inr (c # r))"
proof -
  have u: "unat (of_nat c :: byte) = c" using assms by (simp add: unat_of_nat)
  show ?thesis using assms by (simp add: u)
qed

lemma decode_2:
  assumes "0x80 \<le> c" "c < 0x800"
  shows "bytes_decode (of_nat (0xC0 + c div 0x40) # of_nat (0x80 + c mod 0x40) # rest)
         = and_then (bytes_decode rest) (\<lambda>r. Inr (c # r))"
proof -
  define x0 where "x0 = 0xC0 + c div 0x40"
  define x1 where "x1 = 0x80 + c mod 0x40"
  have r0: "0xC2 \<le> x0" "x0 < 0xE0" using assms by (simp_all add: x0_def)
  have r1: "0x80 \<le> x1" "x1 < 0xC0" by (simp_all add: x1_def)
  have u0: "unat (of_nat x0 :: byte) = x0" using r0 by (simp add: unat_of_nat)
  have u1: "unat (of_nat x1 :: byte) = x1" using r1 by (simp add: unat_of_nat)
  have v: "(x0 - 0xC0) * 0x40 + (x1 - 0x80) = c" by (simp add: x0_def x1_def)
  have "bytes_decode (of_nat x0 # of_nat x1 # rest)
         = and_then (bytes_decode rest) (\<lambda>r. Inr (c # r))"
    using r0 r1 by (simp add: u0 u1 v is_cont_def)
  then show ?thesis by (simp only: x0_def x1_def)
qed

lemma decode_3:
  assumes "0x800 \<le> c" "c < 0x10000" "\<not> (0xD800 \<le> c \<and> c < 0xE000)"
  shows "bytes_decode (of_nat (0xE0 + c div 0x1000) # of_nat (0x80 + c div 0x40 mod 0x40)
                        # of_nat (0x80 + c mod 0x40) # rest)
         = and_then (bytes_decode rest) (\<lambda>r. Inr (c # r))"
proof -
  define x0 where "x0 = 0xE0 + c div 0x1000"
  define x1 where "x1 = 0x80 + c div 0x40 mod 0x40"
  define x2 where "x2 = 0x80 + c mod 0x40"
  have r0: "0xE0 \<le> x0" "x0 < 0xF0" using assms by (simp_all add: x0_def)
  have r1: "0x80 \<le> x1" "x1 < 0xC0" by (simp_all add: x1_def)
  have r2: "0x80 \<le> x2" "x2 < 0xC0" by (simp_all add: x2_def)
  have u0: "unat (of_nat x0 :: byte) = x0" using r0 by (simp add: unat_of_nat)
  have u1: "unat (of_nat x1 :: byte) = x1" using r1 by (simp add: unat_of_nat)
  have u2: "unat (of_nat x2 :: byte) = x2" using r2 by (simp add: unat_of_nat)
  have v: "(x0 - 0xE0) * 0x1000 + (x1 - 0x80) * 0x40 + (x2 - 0x80) = c"
    unfolding x0_def x1_def x2_def using base64_digits3 [of c] by simp
  have "bytes_decode (of_nat x0 # of_nat x1 # of_nat x2 # rest)
         = and_then (bytes_decode rest) (\<lambda>r. Inr (c # r))"
    using r0 r1 r2 assms by (simp add: u0 u1 u2 v is_cont_def)
  then show ?thesis by (simp only: x0_def x1_def x2_def)
qed

lemma decode_4:
  assumes "0x10000 \<le> c" "c < 0x110000"
  shows "bytes_decode (of_nat (0xF0 + c div 0x40000) # of_nat (0x80 + c div 0x1000 mod 0x40)
                        # of_nat (0x80 + c div 0x40 mod 0x40) # of_nat (0x80 + c mod 0x40) # rest)
         = and_then (bytes_decode rest) (\<lambda>r. Inr (c # r))"
proof -
  define x0 where "x0 = 0xF0 + c div 0x40000"
  define x1 where "x1 = 0x80 + c div 0x1000 mod 0x40"
  define x2 where "x2 = 0x80 + c div 0x40 mod 0x40"
  define x3 where "x3 = 0x80 + c mod 0x40"
  have r0: "0xF0 \<le> x0" "x0 < 0xF5" using assms by (simp_all add: x0_def)
  have r1: "0x80 \<le> x1" "x1 < 0xC0" by (simp_all add: x1_def)
  have r2: "0x80 \<le> x2" "x2 < 0xC0" by (simp_all add: x2_def)
  have r3: "0x80 \<le> x3" "x3 < 0xC0" by (simp_all add: x3_def)
  have u0: "unat (of_nat x0 :: byte) = x0" using r0 by (simp add: unat_of_nat)
  have u1: "unat (of_nat x1 :: byte) = x1" using r1 by (simp add: unat_of_nat)
  have u2: "unat (of_nat x2 :: byte) = x2" using r2 by (simp add: unat_of_nat)
  have u3: "unat (of_nat x3 :: byte) = x3" using r3 by (simp add: unat_of_nat)
  have v: "(x0 - 0xF0) * 0x40000 + (x1 - 0x80) * 0x1000 + (x2 - 0x80) * 0x40 + (x3 - 0x80) = c"
    unfolding x0_def x1_def x2_def x3_def using base64_digits4 [of c] by simp
  have "bytes_decode (of_nat x0 # of_nat x1 # of_nat x2 # of_nat x3 # rest)
         = and_then (bytes_decode rest) (\<lambda>r. Inr (c # r))"
    using r0 r1 r2 r3 assms by (simp add: u0 u1 u2 u3 v is_cont_def)
  then show ?thesis by (simp only: x0_def x1_def x2_def x3_def)
qed

lemma decode_encode_cp:
  assumes "utf8_encode_cp c = Inr b"
  shows "bytes_decode (b @ rest) = and_then (bytes_decode rest) (\<lambda>r. Inr (c # r))"
proof -
  consider "c < 0x80" | "0x80 \<le> c" "c < 0x800"
    | "0x800 \<le> c" "c < 0x10000" "\<not> (0xD800 \<le> c \<and> c < 0xE000)"
    | "0x10000 \<le> c" "c < 0x110000"
    using assms by (auto simp: utf8_encode_cp_def split: if_splits)
  then show ?thesis
  proof cases
    case 1
    with assms have "b = [of_nat c]" by (simp add: utf8_encode_cp_def)
    with decode_1 [OF 1, of rest] show ?thesis by simp
  next
    case 2
    with assms have "b = [of_nat (0xC0 + c div 0x40), of_nat (0x80 + c mod 0x40)]"
      by (simp add: utf8_encode_cp_def)
    with decode_2 [OF 2, of rest] show ?thesis by simp
  next
    case 3
    with assms have "b = [of_nat (0xE0 + c div 0x1000), of_nat (0x80 + c div 0x40 mod 0x40),
                          of_nat (0x80 + c mod 0x40)]"
      by (auto simp: utf8_encode_cp_def split: if_splits)
    with decode_3 [OF 3, of rest] show ?thesis by simp
  next
    case 4
    with assms have "b = [of_nat (0xF0 + c div 0x40000), of_nat (0x80 + c div 0x1000 mod 0x40),
                          of_nat (0x80 + c div 0x40 mod 0x40), of_nat (0x80 + c mod 0x40)]"
      by (auto simp: utf8_encode_cp_def split: if_splits)
    with decode_4 [OF 4, of rest] show ?thesis by simp
  qed
qed

lemma decode_encode: "str_encode s = Inr b \<Longrightarrow> bytes_decode b = Inr s"
proof (induction s arbitrary: b)
  case Nil
  then show ?case by simp
next
  case (Cons c cs)
  from Cons.prems obtain b0 bs where
    b0: "utf8_encode_cp c = Inr b0" and bs: "str_encode cs = Inr bs" and b: "b = b0 @ bs"
    by (auto simp: and_then_def split: sum.splits)
  from Cons.IH [OF bs] have "bytes_decode bs = Inr cs" .
  then show ?case
    by (simp add: b decode_encode_cp [OF b0] and_then_def)
qed

lemma str_encode_scalar:
  "(\<exists>b. str_encode s = Inr b) \<longleftrightarrow> (\<forall>c \<in> set s. c < 0x110000 \<and> \<not> (0xD800 \<le> c \<and> c < 0xE000))"
proof (induction s)
  case Nil
  then show ?case by simp
next
  case (Cons c cs)
  have "(\<exists>b. utf8_encode_cp c = Inr b) \<longleftrightarrow> (c < 0x110000 \<and> \<not> (0xD800 \<le> c \<and> c < 0xE000))"
    by (auto simp: utf8_encode_cp_def)
  with Cons show ?case
    by (auto simp: and_then_def split: sum.splits)
qed

lemma length_xor_bytes: "length (xor_bytes xs ys) = min (length xs) (length ys)"
  by (simp add: xor_bytes_def)

lemma xor_bytes_cancel:
  "length xs = length ys \<Longrightarrow> xor_bytes (xor_bytes xs ys) ys = xs"
proof (induction xs arbitrary: ys)
  case Nil
  then show ?case by (simp add: xor_bytes_def)
next
  case (Cons x xs)
  then obtain y ys' where ys: "ys = y # ys'" by (cases ys) auto
  with Cons.prems have "length xs = length ys'" by simp
  from Cons.IH [OF this] have "xor_bytes (xor_bytes xs ys') ys' = xs" .
  then show ?case
    by (simp add: ys xor_bytes_def bit.xor_cancel_right xor.assoc)
qed

lemma block_of_data:
  assumes "data \<noteq> []" "length data mod 16 = 0"
  shows "length (take 16 data) = 16" "length (drop 16 data) mod 16 = 0"
proof -
  from assms have "16 \<le> length data"
    by (cases "length data < 16") auto
  then show "length (take 16 data) = 16" by simp
  from assms(2) \<open>16 \<le> length data\<close> show "length (drop 16 data) mod 16 = 0"
    by (simp add: mod_eq_0_iff_dvd)
qed

lemma cbc_encrypt_length:
  "\<forall>b. length b = 16 \<longrightarrow> length (E b) = 16 \<Longrightarrow> length prev = 16
   \<Longrightarrow> length data mod 16 = 0 \<Longrightarrow> length (cbc_encrypt E prev data) = length data"
proof (induction E prev data rule: cbc_encrypt.induct)
  case (1 E prev data)
  show ?case
  proof (cases "data = []")
    case True
    then show ?thesis by (subst cbc_encrypt.simps) simp
  next
    case False
    note blk = block_of_data [OF False "1.prems"(3)]
    define c where "c = E (xor_bytes (take 16 data) prev)"
    have lc: "length c = 16"
      unfolding c_def using blk(1) "1.prems"(1,2) by (simp add: length_xor_bytes)
    have "length (cbc_encrypt E c (drop 16 data)) = length (drop 16 data)"
      unfolding c_def using "1.IH" [OF False "1.prems"(1) lc [unfolded c_def] blk(2)] .
    moreover have "cbc_encrypt E prev data = c @ cbc_encrypt E c (drop 16 data)"
      unfolding c_def using False by (subst cbc_encrypt.simps) simp
    moreover have "16 \<le> length data" using blk(1) by simp
    ultimately show ?thesis using lc by simp
  qed
qed

lemma cbc_roundtrip:
  "\<forall>b. length b = 16 \<longrightarrow> length (E b) = 16 \<and> D (E b) = b \<Longrightarrow> length prev = 16
   \<Longrightarrow> length data mod 16 = 0 \<Longrightarrow> cbc_decrypt D prev (cbc_encrypt E prev data) = data"
proof (induction E prev data rule: cbc_encrypt.induct)
  case (1 E prev data)
  show ?case
  proof (cases "data = []")
    case True
    then have "cbc_encrypt E prev data = []" by (subst cbc_encrypt.simps) simp
    with True show ?thesis by (subst cbc_decrypt.simps) simp
  next
    case False
    note blk = block_of_data [OF False "1.prems"(3)]
    define p where "p = xor_bytes (take 16 data) prev"
    define c where "c = E p"
    define rest where "rest = cbc_encrypt E c (drop 16 data)"
    have lp: "length p = 16"
      unfolding p_def using blk(1) "1.prems"(2) by (simp add: length_xor_bytes)
    have lc: "length c = 16" and dc: "D c = p"
      unfolding c_def using "1.prems"(1) lp by simp_all
    have enc: "cbc_encrypt E prev data = c @ rest"
      unfolding rest_def c_def p_def using False by (subst cbc_encrypt.simps) simp
    have ih: "cbc_decrypt D c rest = drop 16 data"
      unfolding rest_def c_def p_def
      using "1.IH" [OF False "1.prems"(1) lc [unfolded c_def p_def] blk(2)] .
    have ne: "c \<noteq> []" using lc by auto
    have "cbc_decrypt D prev (c @ rest) = xor_bytes (D c) prev @ cbc_decrypt D c rest"
      using lc by (subst cbc_decrypt.simps) (simp add: ne)
    also have "xor_bytes (D c) prev = take 16 data"
      unfolding dc p_def using blk(1) "1.prems"(2) by (simp add: xor_bytes_cancel)
    finally show ?thesis by (simp add: enc ih)
  qed
qed

lemma new_cipher_ok: "length key = 32 \<Longrightarrow> length iv = 16 \<Longrightarrow> new_cipher key iv = Inr ()"
  by (simp add: new_cipher_def)

lemma encrypt_aes_ok:
  assumes "length key = 32" "length iv = 16" "str_encode payload = Inr raw"
  shows "encrypt_aes L payload key iv
         = Inr (cbc_encrypt (aes_encrypt_block L key) iv (pad_data raw))"
  using assms
  by (simp add: encrypt_aes_def and_then_def new_cipher_ok encryptor_run_def length_pad_data)

lemma decrypt_aes_of_encrypted:
  assumes cipher: "\<forall>b. length b = 16 \<longrightarrow>
                     length (aes_encrypt_block L key b) = 16
                     \<and> aes_decrypt_block L key (aes_encrypt_block L key b) = b"
    and key: "length key = 32" and iv: "length iv = 16"
    and raw: "str_encode payload = Inr raw"
  shows "decrypt_aes L (cbc_encrypt (aes_encrypt_block L key) iv (pad_data raw)) key iv
         = Inr payload"
proof -
  let ?E = "aes_encrypt_block L key" and ?D = "aes_decrypt_block L key"
  from cipher have len: "\<forall>b. length b = 16 \<longrightarrow> length (?E b) = 16" by simp
  have l: "length (cbc_encrypt ?E iv (pad_data raw)) mod 16 = 0"
    by (simp add: cbc_encrypt_length [OF len iv length_pad_data] length_pad_data)
  have rt: "cbc_decrypt ?D iv (cbc_encrypt ?E iv (pad_data raw)) = pad_data raw"
    by (rule cbc_roundtrip [OF cipher iv length_pad_data])
  show ?thesis
    by (simp add: decrypt_aes_def and_then_def new_cipher_ok [OF key iv] decryptor_run_def
        l rt unpad_pad decode_encode [OF raw])
qed

lemma demo_block_cipher:
  "\<forall>b. length b = 16 \<longrightarrow>
     length (aes_encrypt_block demo_lib demo_key b) = 16
     \<and> aes_decrypt_block demo_lib demo_key (aes_encrypt_block demo_lib demo_key b) = b"
proof (intro allI impI)
  fix b :: pybytes
  assume b: "length b = 16"
  have k: "length (take 16 demo_key) = 16" by (simp add: demo_key_def)
  have "xor_bytes (xor_bytes b (take 16 demo_key)) (take 16 demo_key) = b"
    by (rule xor_bytes_cancel) (simp only: b k)
  moreover have "length (xor_bytes b (take 16 demo_key)) = 16"
    by (simp add: length_xor_bytes b demo_key_def)
  ultimately show "length (aes_encrypt_block demo_lib demo_key b) = 16
     \<and> aes_decrypt_block demo_lib demo_key (aes_encrypt_block demo_lib demo_key b) = b"
    by (simp add: demo_lib_def)
qed

text \<open>
  C4, as the code has it. When the block cipher's decryption undoes its encryption on
  every block, the key has 32 bytes and the vector 16, then for every string that UTF-8
  can encode (every code point is below \<open>0x110000\<close> and none is a surrogate)
  \<open>_decrypt_aes\<close> returns the string that \<open>_encrypt_aes\<close> was given.
\<close>

theorem encrypt_decrypt_roundtrip:
  assumes "\<forall>b. length b = 16 \<longrightarrow>
             length (aes_encrypt_block L key b) = 16
             \<and> aes_decrypt_block L key (aes_encrypt_block L key b) = b"
    and "length key = 32" and "length iv = 16"
    and "\<forall>c \<in> set payload. c < 0x110000 \<and> \<not> (0xD800 \<le> c \<and> c < 0xE000)"
  shows "encrypt_then_decrypt L payload key iv = Inr payload"
proof -
  from assms(4) obtain raw where raw: "str_encode payload = Inr raw"
    using str_encode_scalar [of payload] by blast
  show ?thesis
    unfolding encrypt_then_decrypt_def
    by (simp add: encrypt_aes_ok [OF assms(2,3) raw] and_then_def
        decrypt_aes_of_encrypted [OF assms(1-3) raw])
qed

theorem encrypt_decrypt_roundtrip_witness:
  "length demo_key = 32 \<and> length demo_iv = 16
   \<and> encrypt_then_decrypt demo_lib demo_text_null demo_key demo_iv = Inr demo_text_null"
proof -
  have k: "length demo_key = 32" by (simp add: demo_key_def)
  have v: "length demo_iv = 16" by (simp add: demo_iv_def)
  have t: "\<forall>c \<in> set demo_text_null. c < 0x110000 \<and> \<not> (0xD800 \<le> c \<and> c < 0xE000)"
    by (simp add: demo_text_null_def lit_def)
  from encrypt_decrypt_roundtrip [OF demo_block_cipher k v t] k v show ?thesis by simp
qed

text \<open>
  The string of the one code point \<open>0xD800\<close>, a surrogate, is a Python string that
  \<open>data.encode()\<close> refuses: \<open>_encrypt_aes\<close> raises and there is nothing to decrypt.
\<close>

theorem encrypt_surrogate_counterexample:
  "length demo_key = 32 \<and> length demo_iv = 16
   \<and> encrypt_aes demo_lib [0xD800] demo_key demo_iv = Inl UnicodeEncodeError
   \<and> encrypt_then_decrypt demo_lib [0xD800] demo_key demo_iv \<noteq> Inr [0xD800]"
  by (simp add: demo_key_def demo_iv_def encrypt_then_decrypt_def encrypt_aes_def
      and_then_def new_cipher_def utf8_encode_cp_def)

section \<open>Properties of the validation\<close>

lemma demo_parse_null: "parse_cache demo_file_null = Inr (demo_iv, demo_encrypted_null)"
  by code_simp

lemma demo_parse_absent: "parse_cache demo_file_absent = Inr (demo_iv, demo_encrypted_absent)"
  by code_simp

lemma demo_decrypt_null:
  "decrypt_cache demo_lib demo_client demo_iv demo_encrypted_null = Inr demo_record_null"
  by code_simp

lemma demo_decrypt_absent:
  "decrypt_cache demo_lib demo_client demo_iv demo_encrypted_absent = Inr demo_record_absent"
  by code_simp

lemma save_cache_never_raises: "\<exists>b. fst (save_cache L c w) = Inr b"
  by (auto simp: save_cache_def split: prod.splits sum.splits)


lemma accept_cache_dict:
  "accept_cache (JDict kv) c =
     (Inr True, c\<lparr>license_info := Some (JDict (AList.update (lit ''offlineMode'') (JBool True) kv)),
                  offline_mode := True\<rparr>)"
  by (simp add: accept_cache_def)

lemma offline_checks_True_dict:
  assumes "offline_checks L now cache = Inr True"
  shows "\<exists>kv. cache = JDict kv"
proof (cases cache)
  case (JDict kv)
  then show ?thesis by simp
qed (use assms in \<open>auto simp: offline_checks_def and_then_def split: sum.splits if_splits\<close>)

lemma validate_offline_try_decryptable:
  assumes "cache_file w = File data" "HAS_CRYPTO w"
    and "parse_cache data = Inr (iv, encrypted_data)"
    and "decrypt_cache L c iv encrypted_data = Inr cache"
  shows "validate_offline_try L c w =
           (case offline_checks L (utcnow w) cache of
              Inl e \<Rightarrow> (Inl e, c, log_event CacheRead (log_event CacheExists w))
            | Inr False \<Rightarrow> (Inr False, c, log_event CacheRead (log_event CacheExists w))
            | Inr True \<Rightarrow>
                (case accept_cache cache c of
                   (r, c') \<Rightarrow> (r, c', log_event CacheRead (log_event CacheExists w))))"
  using assms by (simp add: validate_offline_try_def Let_def)

lemma validate_offline_decryptable_dict:
  assumes "cache_file w = File data" "HAS_CRYPTO w"
    and "parse_cache data = Inr (iv, encrypted_data)"
    and "decrypt_cache L c iv encrypted_data = Inr (JDict kv)"
  shows "fst (validate_offline L c w) = Inr (offline_checks L (utcnow w) (JDict kv) = Inr True)"
  by (simp add: validate_offline_def validate_offline_try_decryptable [OF assms]
      accept_cache_dict split: sum.splits bool.splits)

lemma offline_checks_no_expiry_key:
  assumes "map_of kv (lit ''expiresAt'') = None"
  shows "offline_checks L now (JDict kv) = Inr False"
  using assms by (simp add: offline_checks_def and_then_def)

lemma offline_checks_dict:
  assumes "map_of kv (lit ''validatedAt'') = Some (JStr sv)"
    and "fromisoformat L sv = Inr (Naive tv)"
    and "0 \<le> tv" and "tv + timedelta_days OFFLINE_GRACE_DAYS \<le> datetime_max"
    and "map_of kv (lit ''expiresAt'') = Some ev"
  shows "offline_checks L now (JDict kv) =
           (if now > tv + timedelta_days OFFLINE_GRACE_DAYS then Inr False
            else if py_truthy ev
              then and_then (py_fromisoformat L ev)
                     (\<lambda>t. and_then (dt_gt (Naive now) t) (\<lambda>over. Inr (\<not> over)))
            else Inr True)"
proof -
  have "0 \<le> tv + timedelta_days OFFLINE_GRACE_DAYS"
    using assms(3) by (simp add: timedelta_days_def OFFLINE_GRACE_DAYS_def)
  with assms show ?thesis
    by (simp add: offline_checks_def and_then_def split: sum.splits)
qed


lemma offline_checks_grace:
  assumes "offline_checks L now (JDict kv) = Inr True"
    and "map_of kv (lit ''validatedAt'') = Some (JStr sv)"
    and "fromisoformat L sv = Inr (Naive tv)"
  shows "now \<le> tv + timedelta_days OFFLINE_GRACE_DAYS"
  using assms
  by (auto simp: offline_checks_def and_then_def split: sum.splits if_splits option.splits)

lemma validate_offline_outcomes:
  "validate_offline L c w = (Inr False, c, snd (snd (validate_offline L c w)))
   \<or> (\<exists>data iv encrypted_data kv.
         cache_file w = File data \<and> HAS_CRYPTO w
         \<and> parse_cache data = Inr (iv, encrypted_data)
         \<and> decrypt_cache L c iv encrypted_data = Inr (JDict kv)
         \<and> offline_checks L (utcnow w) (JDict kv) = Inr True
         \<and> validate_offline L c w =
             (Inr True,
              c\<lparr>license_info := Some (JDict (AList.update (lit ''offlineMode'') (JBool True) kv)),
                offline_mode := True\<rparr>,
              log_event CacheRead (log_event CacheExists w)))"
proof (cases "cache_file w")
  case NoFile
  then show ?thesis by (simp add: validate_offline_def validate_offline_try_def)
next
  case Unreadable
  then show ?thesis by (simp add: validate_offline_def validate_offline_try_def)
next
  case (File data)
  show ?thesis
  proof (cases "parse_cache data")
    case (Inl e)
    with File show ?thesis by (simp add: validate_offline_def validate_offline_try_def)
  next
    case (Inr p)
    obtain iv encrypted_data where p: "p = (iv, encrypted_data)" by (cases p)
    show ?thesis
    proof (cases "HAS_CRYPTO w")
      case False
      with File Inr p show ?thesis
        by (simp add: validate_offline_def validate_offline_try_def)
    next
      case crypto: True
      show ?thesis
      proof (cases "decrypt_cache L c iv encrypted_data")
        case (Inl e)
        with File Inr p crypto show ?thesis
          by (simp add: validate_offline_def validate_offline_try_def)
      next
        case dec: (Inr cache)
        note unfold = validate_offline_try_decryptable
          [OF File crypto Inr [unfolded p] dec]
        show ?thesis
        proof (cases "offline_checks L (utcnow w) cache = Inr True")
          case False
          then show ?thesis
            by (auto simp: validate_offline_def unfold split: sum.splits bool.splits)
        next
          case True
          then obtain kv where kv: "cache = JDict kv"
            using offline_checks_True_dict by blast
          have "validate_offline L c w =
                  (Inr True,
                   c\<lparr>license_info :=
                        Some (JDict (AList.update (lit ''offlineMode'') (JBool True) kv)),
                     offline_mode := True\<rparr>,
                   log_event CacheRead (log_event CacheExists w))"
            using True by (simp add: validate_offline_def unfold kv accept_cache_dict)
          with File crypto Inr p dec kv True show ?thesis by blast
        qed
      qed
    qed
  qed
qed

lemma save_cache_no_crypto: "\<not> HAS_CRYPTO w \<Longrightarrow> save_cache L c w = (Inr False, w)"
  by (auto simp: save_cache_def save_cache_try_def split: option.splits sum.splits)

lemma save_cache_changes_world:
  assumes "snd (save_cache L c w) \<noteq> w"
  shows "\<exists>kv v. license_info c = Some (JDict kv) \<and> map_of kv (lit ''valid'') = Some v
                \<and> py_truthy v"
proof (cases "license_info c")
  case None
  with assms show ?thesis by (simp add: save_cache_def save_cache_try_def)
next
  case (Some info)
  show ?thesis
  proof (cases info)
    case (JDict kv)
    show ?thesis
    proof (cases "map_of kv (lit ''valid'')")
      case None
      with assms Some JDict show ?thesis by (simp add: save_cache_def save_cache_try_def)
    next
      case (Some v)
      have "py_truthy v"
      proof (rule ccontr)
        assume "\<not> py_truthy v"
        with assms \<open>license_info c = Some info\<close> JDict Some show False
          by (simp add: save_cache_def save_cache_try_def)
      qed
      with \<open>license_info c = Some info\<close> JDict Some show ?thesis by simp
    qed
  qed (use assms Some in \<open>simp_all add: save_cache_def save_cache_try_def\<close>)
qed

section \<open>The claims about the validation\<close>


text \<open>
  C7. Without a license key (\<open>None\<close> or the empty string) \<open>validate\<close> returns
  \<open>False\<close> and leaves the client and the environment as they were: the log gets no
  request to the server and no access to the cache file.
\<close>

theorem validate_without_key:
  assumes "license_key c = None \<or> license_key c = Some []"
  shows "validate L c w = (Inr False, c, w)"
  using assms by (auto simp: validate_def)

theorem validate_without_key_witness:
  "validate demo_lib (demo_client\<lparr>license_key := None\<rparr>) (demo_world (File demo_file_null) 0)
     = (Inr False, demo_client\<lparr>license_key := None\<rparr>, demo_world (File demo_file_null) 0)
   \<and> validate demo_lib (demo_client\<lparr>license_key := Some []\<rparr>) (demo_world NoFile 0)
     = (Inr False, demo_client\<lparr>license_key := Some []\<rparr>, demo_world NoFile 0)"
  using validate_without_key [of "demo_client\<lparr>license_key := None\<rparr>" demo_lib
      "demo_world (File demo_file_null) 0"]
    validate_without_key [of "demo_client\<lparr>license_key := Some []\<rparr>" demo_lib
      "demo_world NoFile 0"]
  by simp



text \<open>
  C6. \<open>save_cache\<close> returns \<open>False\<close> and leaves the environment, the cache file
  with it, as it was when \<open>license_info\<close> is \<open>None\<close> and when it is a record whose
  \<open>valid\<close> is \<open>false\<close>. Whenever \<open>save_cache\<close> changes the environment,
  \<open>license_info\<close> is a record whose \<open>valid\<close> is true.
\<close>

theorem save_cache_only_valid:
  "(license_info c = None \<longrightarrow> save_cache L c w = (Inr False, w))
   \<and> (\<forall>kv. license_info c = Some (JDict kv) \<and> map_of kv (lit ''valid'') = Some (JBool False)
           \<longrightarrow> save_cache L c w = (Inr False, w))
   \<and> (snd (save_cache L c w) \<noteq> w
        \<longrightarrow> (\<exists>kv v. license_info c = Some (JDict kv) \<and> map_of kv (lit ''valid'') = Some v
                    \<and> py_truthy v))"
proof (intro conjI allI impI)
  assume "license_info c = None"
  then show "save_cache L c w = (Inr False, w)"
    by (simp add: save_cache_def save_cache_try_def)
next
  fix kv
  assume "license_info c = Some (JDict kv) \<and> map_of kv (lit ''valid'') = Some (JBool False)"
  then show "save_cache L c w = (Inr False, w)"
    by (simp add: save_cache_def save_cache_try_def)
next
  assume "snd (save_cache L c w) \<noteq> w"
  then show "\<exists>kv v. license_info c = Some (JDict kv) \<and> map_of kv (lit ''valid'') = Some v
                    \<and> py_truthy v"
    by (rule save_cache_changes_world)
qed

theorem save_cache_only_valid_witness:
  "save_cache demo_lib demo_client (demo_world NoFile 0) = (Inr False, demo_world NoFile 0)
   \<and> save_cache demo_lib (demo_client\<lparr>license_info := Some demo_rejection\<rparr>)
         (demo_world NoFile 0) = (Inr False, demo_world NoFile 0)
   \<and> fst (save_cache demo_lib (demo_client\<lparr>license_info := Some demo_record_valid\<rparr>)
         (demo_world NoFile 0)) = Inr True"
proof -
  have a: "license_info demo_client = None" by (simp add: demo_client_def)
  have b: "license_info (demo_client\<lparr>license_info := Some demo_rejection\<rparr>)
             = Some (JDict [(lit ''valid'', JBool False),
                            (lit ''error'', JStr (lit ''License revoked''))])
           \<and> map_of [(lit ''valid'', JBool False),
                       (lit ''error'', JStr (lit ''License revoked''))] (lit ''valid'')
               = Some (JBool False)"
    by (simp add: demo_rejection_def)
  have c: "fst (save_cache demo_lib (demo_client\<lparr>license_info := Some demo_record_valid\<rparr>)
             (demo_world NoFile 0)) = Inr True"
    by code_simp
  from save_cache_only_valid [of demo_client demo_lib "demo_world NoFile 0"] a
  have 1: "save_cache demo_lib demo_client (demo_world NoFile 0) = (Inr False, demo_world NoFile 0)"
    by blast
  from save_cache_only_valid [of "demo_client\<lparr>license_info := Some demo_rejection\<rparr>"
      demo_lib "demo_world NoFile 0"] b
  have 2: "save_cache demo_lib (demo_client\<lparr>license_info := Some demo_rejection\<rparr>)
             (demo_world NoFile 0) = (Inr False, demo_world NoFile 0)"
    by blast
  from 1 2 c show ?thesis by simp
qed

text \<open>
  C8. When \<open>HAS_CRYPTO\<close> is false, \<open>save_cache\<close> returns \<open>False\<close> and leaves the
  environment as it was, and \<open>validate_offline\<close> returns \<open>False\<close>, whatever the cache
  file holds, leaving the client and the cache file as they were; neither raises.
\<close>

theorem no_crypto_fails_closed:
  assumes "\<not> HAS_CRYPTO w"
  shows "save_cache L c w = (Inr False, w)
         \<and> fst (validate_offline L c w) = Inr False
         \<and> fst (snd (validate_offline L c w)) = c
         \<and> cache_file (snd (snd (validate_offline L c w))) = cache_file w"
proof -
  from validate_offline_outcomes [of L c w] assms
  have f: "validate_offline L c w = (Inr False, c, snd (snd (validate_offline L c w)))"
    by blast
  have "cache_file (snd (snd (validate_offline L c w))) = cache_file w"
    by (auto simp: validate_offline_def validate_offline_try_def log_event_def Let_def
        accept_cache_def split: fnode.splits sum.splits prod.splits bool.splits)
  with f save_cache_no_crypto [OF assms, of L c] show ?thesis
    by (metis fst_conv snd_conv)
qed

theorem no_crypto_fails_closed_witness:
  "save_cache demo_lib (demo_client\<lparr>license_info := Some demo_record_valid\<rparr>)
     ((demo_world (File demo_file_null) (timedelta_days 3))\<lparr>HAS_CRYPTO := False\<rparr>)
   = (Inr False, (demo_world (File demo_file_null) (timedelta_days 3))\<lparr>HAS_CRYPTO := False\<rparr>)
   \<and> fst (validate_offline demo_lib (demo_client\<lparr>license_info := Some demo_record_valid\<rparr>)
            ((demo_world (File demo_file_null) (timedelta_days 3))\<lparr>HAS_CRYPTO := False\<rparr>))
     = Inr False"
  using no_crypto_fails_closed
    [of "(demo_world (File demo_file_null) (timedelta_days 3))\<lparr>HAS_CRYPTO := False\<rparr>"
      demo_lib "demo_client\<lparr>license_info := Some demo_record_valid\<rparr>"]
  by (simp add: demo_world_def)

text \<open>
  C9. When \<open>validate_offline\<close> does not return \<open>True\<close>, the client is as it was:
  \<open>license_info\<close> and \<open>offline_mode\<close> are unchanged. When it returns \<open>True\<close>,
  the cache file decrypts to a record, \<open>license_info\<close> is that record with
  \<open>offlineMode\<close> set to \<open>True\<close>, \<open>offline_mode\<close> is \<open>True\<close> and nothing
  else of the client has changed.
\<close>

theorem validate_offline_atomic:
  "(fst (validate_offline L c w) \<noteq> Inr True \<longrightarrow> fst (snd (validate_offline L c w)) = c)
   \<and> (fst (validate_offline L c w) = Inr True \<longrightarrow>
        (\<exists>data iv encrypted_data kv.
           cache_file w = File data \<and> parse_cache data = Inr (iv, encrypted_data)
           \<and> decrypt_cache L c iv encrypted_data = Inr (JDict kv)
           \<and> fst (snd (validate_offline L c w)) =
               c\<lparr>license_info :=
                    Some (JDict (AList.update (lit ''offlineMode'') (JBool True) kv)),
                 offline_mode := True\<rparr>))"
proof -
  from validate_offline_outcomes [of L c w] show ?thesis
  proof (elim disjE exE conjE)
    assume f: "validate_offline L c w = (Inr False, c, snd (snd (validate_offline L c w)))"
    have "fst (validate_offline L c w) = Inr False" by (subst f) simp
    moreover have "fst (snd (validate_offline L c w)) = c" by (subst f) simp
    ultimately show ?thesis by simp
  next
    fix data iv encrypted_data kv
    assume cf: "cache_file w = File data"
      and parse: "parse_cache data = Inr (iv, encrypted_data)"
      and dec: "decrypt_cache L c iv encrypted_data = Inr (JDict kv)"
      and t: "validate_offline L c w =
                (Inr True,
                 c\<lparr>license_info :=
                      Some (JDict (AList.update (lit ''offlineMode'') (JBool True) kv)),
                   offline_mode := True\<rparr>,
                 log_event CacheRead (log_event CacheExists w))"
    have r: "fst (validate_offline L c w) = Inr True" by (simp add: t)
    have "fst (snd (validate_offline L c w)) =
            c\<lparr>license_info :=
                 Some (JDict (AList.update (lit ''offlineMode'') (JBool True) kv)),
              offline_mode := True\<rparr>"
      by (simp add: t)
    with cf parse dec have
      "\<exists>data iv encrypted_data kv.
         cache_file w = File data \<and> parse_cache data = Inr (iv, encrypted_data)
         \<and> decrypt_cache L c iv encrypted_data = Inr (JDict kv)
         \<and> fst (snd (validate_offline L c w)) =
             c\<lparr>license_info :=
                  Some (JDict (AList.update (lit ''offlineMode'') (JBool True) kv)),
               offline_mode := True\<rparr>"
      by blast
    with r show ?thesis by simp
  qed
qed

theorem validate_offline_atomic_witness:
  "fst (snd (validate_offline demo_lib demo_client
               (demo_world (File demo_file_null) (timedelta_days 8)))) = demo_client
   \<and> fst (snd (validate_offline demo_lib demo_client (demo_world NoFile 0))) = demo_client
   \<and> fst (validate_offline demo_lib demo_client
            (demo_world (File demo_file_null) (timedelta_days 3))) = Inr True"
proof -
  have a: "fst (validate_offline demo_lib demo_client
                  (demo_world (File demo_file_null) (timedelta_days 8))) \<noteq> Inr True"
    by code_simp
  have b: "fst (validate_offline demo_lib demo_client (demo_world NoFile 0)) \<noteq> Inr True"
    by code_simp
  have c: "fst (validate_offline demo_lib demo_client
                  (demo_world (File demo_file_null) (timedelta_days 3))) = Inr True"
    by code_simp
  from a b c
    validate_offline_atomic [of demo_lib demo_client
      "demo_world (File demo_file_null) (timedelta_days 8)"]
    validate_offline_atomic [of demo_lib demo_client "demo_world NoFile 0"]
  show ?thesis by blast
qed

section \<open>The acceptance rule of offline validation\<close>

text \<open>
  C1, as the code has it. Take a cache file that decrypts to a record whose
  \<open>validatedAt\<close> is a naive timestamp to which seven days can be added. If the record
  has no \<open>expiresAt\<close> key, \<open>validate_offline\<close> rejects it. If \<open>expiresAt\<close> is
  \<open>null\<close>, or a naive timestamp, \<open>validate_offline\<close> accepts the record exactly when
  the rule of the specification holds: \<open>now - validatedAt\<close> is at most seven days and
  \<open>expiresAt\<close> is \<open>null\<close> or not before \<open>now\<close>.
\<close>

theorem validate_offline_accepts_iff:
  assumes "cache_file w = File data" and "HAS_CRYPTO w"
    and "parse_cache data = Inr (iv, encrypted_data)"
    and "decrypt_cache L c iv encrypted_data = Inr (JDict kv)"
    and "map_of kv (lit ''validatedAt'') = Some (JStr sv)"
    and "fromisoformat L sv = Inr (Naive validatedAt)"
    and "0 \<le> validatedAt"
    and "validatedAt + timedelta_days OFFLINE_GRACE_DAYS \<le> datetime_max"
  shows "(map_of kv (lit ''expiresAt'') = None \<longrightarrow>
            fst (validate_offline L c w) = Inr False)
       \<and> (map_of kv (lit ''expiresAt'') = Some JNull \<longrightarrow>
            (fst (validate_offline L c w) = Inr True
             \<longleftrightarrow> spec_offline_accept (utcnow w) validatedAt None))
       \<and> (\<forall>se expiresAt.
            map_of kv (lit ''expiresAt'') = Some (JStr se) \<and> se \<noteq> []
            \<and> fromisoformat L se = Inr (Naive expiresAt) \<longrightarrow>
            (fst (validate_offline L c w) = Inr True
             \<longleftrightarrow> spec_offline_accept (utcnow w) validatedAt (Some expiresAt)))"
proof (intro conjI allI impI)
  note result = validate_offline_decryptable_dict [OF assms(1-4)]
  note checks = offline_checks_dict [OF assms(5-8)]
  {
    assume "map_of kv (lit ''expiresAt'') = None"
    then show "fst (validate_offline L c w) = Inr False"
      by (simp add: result offline_checks_no_expiry_key)
  next
    assume e: "map_of kv (lit ''expiresAt'') = Some JNull"
    show "fst (validate_offline L c w) = Inr True
          \<longleftrightarrow> spec_offline_accept (utcnow w) validatedAt None"
      by (auto simp: result checks [OF e] spec_offline_accept_def)
  next
    fix se expiresAt
    assume "map_of kv (lit ''expiresAt'') = Some (JStr se) \<and> se \<noteq> []
            \<and> fromisoformat L se = Inr (Naive expiresAt)"
    then have e: "map_of kv (lit ''expiresAt'') = Some (JStr se)" and ne: "se \<noteq> []"
      and p: "fromisoformat L se = Inr (Naive expiresAt)"
      by simp_all
    show "fst (validate_offline L c w) = Inr True
          \<longleftrightarrow> spec_offline_accept (utcnow w) validatedAt (Some expiresAt)"
      by (auto simp: result checks [OF e] ne p and_then_def spec_offline_accept_def)
  }
qed

theorem validate_offline_accepts_iff_witness:
  "fst (validate_offline demo_lib demo_client
          (demo_world (File demo_file_null) (timedelta_days 3))) = Inr True
   \<and> fst (validate_offline demo_lib demo_client
            (demo_world (File demo_file_null) (timedelta_days 8))) \<noteq> Inr True
   \<and> fst (validate_offline demo_lib demo_client
            (demo_world (File demo_file_absent) (timedelta_days 3))) = Inr False"
proof -
  let ?kn = "[(lit ''validatedAt'', JStr (lit ''2024-01-01'')), (lit ''expiresAt'', JNull)]"
  let ?ka = "[(lit ''validatedAt'', JStr (lit ''2024-01-01''))]"
  have dn: "decrypt_cache demo_lib demo_client demo_iv demo_encrypted_null = Inr (JDict ?kn)"
    using demo_decrypt_null by (simp add: demo_record_null_def)
  have da: "decrypt_cache demo_lib demo_client demo_iv demo_encrypted_absent = Inr (JDict ?ka)"
    using demo_decrypt_absent by (simp add: demo_record_absent_def)
  have vn: "map_of ?kn (lit ''validatedAt'') = Some (JStr (lit ''2024-01-01''))" by simp
  have va: "map_of ?ka (lit ''validatedAt'') = Some (JStr (lit ''2024-01-01''))" by simp
  have en: "map_of ?kn (lit ''expiresAt'') = Some JNull" by (simp add: lit_def)
  have ea: "map_of ?ka (lit ''expiresAt'') = None" by (simp add: lit_def)
  have p: "fromisoformat demo_lib (lit ''2024-01-01'') = Inr (Naive demo_t0)"
    by (simp add: demo_lib_def)
  have t: "0 \<le> demo_t0" "demo_t0 + timedelta_days OFFLINE_GRACE_DAYS \<le> datetime_max"
    by (simp_all add: demo_t0_def timedelta_days_def OFFLINE_GRACE_DAYS_def datetime_max_def)
  have f: "\<And>f d. cache_file (demo_world f d) = f" "\<And>f d. HAS_CRYPTO (demo_world f d)"
    "\<And>f d. utcnow (demo_world f d) = demo_t0 + d"
    by (simp_all add: demo_world_def)
  have s3: "spec_offline_accept (demo_t0 + timedelta_days 3) demo_t0 None"
    by (simp add: spec_offline_accept_def timedelta_days_def OFFLINE_GRACE_DAYS_def)
  have s8: "\<not> spec_offline_accept (demo_t0 + timedelta_days 8) demo_t0 None"
    by (simp add: spec_offline_accept_def timedelta_days_def OFFLINE_GRACE_DAYS_def)
  from validate_offline_accepts_iff [OF f(1) f(2) demo_parse_null dn vn p t, of "timedelta_days 3"]
    en s3
  have 1: "fst (validate_offline demo_lib demo_client
                  (demo_world (File demo_file_null) (timedelta_days 3))) = Inr True"
    by (simp add: f)
  from validate_offline_accepts_iff [OF f(1) f(2) demo_parse_null dn vn p t, of "timedelta_days 8"]
    en s8
  have 2: "fst (validate_offline demo_lib demo_client
                  (demo_world (File demo_file_null) (timedelta_days 8))) \<noteq> Inr True"
    by (simp add: f)
  from validate_offline_accepts_iff [OF f(1) f(2) demo_parse_absent da va p t, of "timedelta_days 3"]
    ea
  have 3: "fst (validate_offline demo_lib demo_client
                  (demo_world (File demo_file_absent) (timedelta_days 3))) = Inr False"
    by simp
  from 1 2 3 show ?thesis by simp
qed

text \<open>
  The claim as it is written takes a record without \<open>expiresAt\<close> for one that never
  expires. The file \<open>demo_file_absent\<close> decrypts to a record that has the key
  \<open>validatedAt\<close> only; three days after that instant the rule of the specification
  accepts it and \<open>validate_offline\<close> returns \<open>False\<close>.
\<close>

theorem validate_offline_absent_expiry_counterexample:
  "parse_cache demo_file_absent = Inr (demo_iv, demo_encrypted_absent)
   \<and> decrypt_cache demo_lib demo_client demo_iv demo_encrypted_absent
       = Inr (JDict [(lit ''validatedAt'', JStr (lit ''2024-01-01''))])
   \<and> fromisoformat demo_lib (lit ''2024-01-01'') = Inr (Naive demo_t0)
   \<and> spec_offline_accept
         (utcnow (demo_world (File demo_file_absent) (timedelta_days 3))) demo_t0 None
   \<and> fst (validate_offline demo_lib demo_client
            (demo_world (File demo_file_absent) (timedelta_days 3))) = Inr False"
proof -
  have "spec_offline_accept
          (utcnow (demo_world (File demo_file_absent) (timedelta_days 3))) demo_t0 None"
    by (simp add: spec_offline_accept_def demo_world_def timedelta_days_def
        OFFLINE_GRACE_DAYS_def)
  moreover have "fst (validate_offline demo_lib demo_client
                   (demo_world (File demo_file_absent) (timedelta_days 3))) = Inr False"
    by code_simp
  moreover have "fromisoformat demo_lib (lit ''2024-01-01'') = Inr (Naive demo_t0)"
    by (simp add: demo_lib_def)
  ultimately show ?thesis
    using demo_parse_absent demo_decrypt_absent by (simp add: demo_record_absent_def)
qed

text \<open>
  C3. Take a cache file that decrypts to a record whose \<open>validatedAt\<close> is a naive
  timestamp. Seven days and one second after it, \<open>validate_offline\<close> returns
  \<open>False\<close>. When seven days can be added to \<open>validatedAt\<close> and the expiry check
  passes (\<open>expiresAt\<close> is there and is false in a condition, or is a naive timestamp
  not before \<open>now\<close>), then six days and 23 hours after \<open>validatedAt\<close> it returns
  \<open>True\<close>, and it returns \<open>False\<close> exactly when \<open>now > validatedAt + 7 days\<close>.
\<close>

theorem grace_period_boundary:
  assumes "cache_file w = File data" and "HAS_CRYPTO w"
    and "parse_cache data = Inr (iv, encrypted_data)"
    and "decrypt_cache L c iv encrypted_data = Inr (JDict kv)"
    and "map_of kv (lit ''validatedAt'') = Some (JStr sv)"
    and "fromisoformat L sv = Inr (Naive validatedAt)"
  shows "(utcnow w = validatedAt + timedelta_days 7 + 1000000 \<longrightarrow>
            fst (validate_offline L c w) = Inr False)
       \<and> (0 \<le> validatedAt \<and> validatedAt + timedelta_days 7 \<le> datetime_max
          \<and> (\<exists>ev. map_of kv (lit ''expiresAt'') = Some ev
                \<and> (if py_truthy ev
                    then \<exists>te. py_fromisoformat L ev = Inr (Naive te) \<and> utcnow w \<le> te
                    else True)) \<longrightarrow>
            (utcnow w = validatedAt + timedelta_days 6 + 23 * 3600000000 \<longrightarrow>
               fst (validate_offline L c w) = Inr True)
            \<and> (fst (validate_offline L c w) = Inr False
               \<longleftrightarrow> utcnow w > validatedAt + timedelta_days 7))"
proof (intro conjI impI)
  note result = validate_offline_decryptable_dict [OF assms(1-4)]
  {
    assume now: "utcnow w = validatedAt + timedelta_days 7 + 1000000"
    have "offline_checks L (utcnow w) (JDict kv) \<noteq> Inr True"
    proof
      assume "offline_checks L (utcnow w) (JDict kv) = Inr True"
      from offline_checks_grace [OF this assms(5,6)] now show False
        by (simp add: OFFLINE_GRACE_DAYS_def)
    qed
    then show "fst (validate_offline L c w) = Inr False" by (simp add: result)
  next
    assume h: "0 \<le> validatedAt \<and> validatedAt + timedelta_days 7 \<le> datetime_max
          \<and> (\<exists>ev. map_of kv (lit ''expiresAt'') = Some ev
                \<and> (if py_truthy ev
                    then \<exists>te. py_fromisoformat L ev = Inr (Naive te) \<and> utcnow w \<le> te
                    else True))"
    then obtain ev where ev: "map_of kv (lit ''expiresAt'') = Some ev"
      and pass: "py_truthy ev \<Longrightarrow> \<exists>te. py_fromisoformat L ev = Inr (Naive te) \<and> utcnow w \<le> te"
      by (auto split: if_splits)
    from h have r: "0 \<le> validatedAt"
      "validatedAt + timedelta_days OFFLINE_GRACE_DAYS \<le> datetime_max"
      by (simp_all add: OFFLINE_GRACE_DAYS_def)
    have checks: "offline_checks L (utcnow w) (JDict kv)
                  = Inr (\<not> utcnow w > validatedAt + timedelta_days 7)"
      using pass
      by (cases "py_truthy ev")
        (auto simp: offline_checks_dict [OF assms(5,6) r ev] and_then_def OFFLINE_GRACE_DAYS_def)
    show "fst (validate_offline L c w) = Inr False
          \<longleftrightarrow> utcnow w > validatedAt + timedelta_days 7"
      by (simp add: result checks)
    show "fst (validate_offline L c w) = Inr True"
      if "utcnow w = validatedAt + timedelta_days 6 + 23 * 3600000000"
    proof -
      from that have "\<not> utcnow w > validatedAt + timedelta_days 7"
        by (simp add: timedelta_days_def)
      then show ?thesis by (simp only: result checks simp_thms)
    qed
  }
qed

theorem grace_period_boundary_witness:
  "fst (validate_offline demo_lib demo_client
          (demo_world (File demo_file_null) (timedelta_days 7 + 1000000))) = Inr False
   \<and> fst (validate_offline demo_lib demo_client
            (demo_world (File demo_file_null) (timedelta_days 6 + 23 * 3600000000))) = Inr True
   \<and> fst (validate_offline demo_lib demo_client
            (demo_world (File demo_file_null) (timedelta_days 7))) \<noteq> Inr False"
proof -
  let ?kn = "[(lit ''validatedAt'', JStr (lit ''2024-01-01'')), (lit ''expiresAt'', JNull)]"
  have dn: "decrypt_cache demo_lib demo_client demo_iv demo_encrypted_null = Inr (JDict ?kn)"
    using demo_decrypt_null by (simp add: demo_record_null_def)
  have vn: "map_of ?kn (lit ''validatedAt'') = Some (JStr (lit ''2024-01-01''))" by simp
  have p: "fromisoformat demo_lib (lit ''2024-01-01'') = Inr (Naive demo_t0)"
    by (simp add: demo_lib_def)
  have f: "\<And>f d. cache_file (demo_world f d) = f" "\<And>f d. HAS_CRYPTO (demo_world f d)"
    "\<And>f d. utcnow (demo_world f d) = demo_t0 + d"
    by (simp_all add: demo_world_def)
  have side: "0 \<le> demo_t0 \<and> demo_t0 + timedelta_days 7 \<le> datetime_max
          \<and> (\<exists>ev. map_of ?kn (lit ''expiresAt'') = Some ev
                \<and> (if py_truthy ev
                    then \<exists>te. py_fromisoformat demo_lib ev = Inr (Naive te)
                              \<and> utcnow (demo_world (File demo_file_null) d) \<le> te
                    else True))" for d
    by (simp add: lit_def demo_t0_def timedelta_days_def datetime_max_def)
  note b = grace_period_boundary [OF f(1) f(2) demo_parse_null dn vn p]
  from b [of "timedelta_days 7 + 1000000"]
  have 1: "fst (validate_offline demo_lib demo_client
                  (demo_world (File demo_file_null) (timedelta_days 7 + 1000000))) = Inr False"
    by (simp add: f)
  from b [of "timedelta_days 6 + 23 * 3600000000"] side
  have 2: "fst (validate_offline demo_lib demo_client
                  (demo_world (File demo_file_null) (timedelta_days 6 + 23 * 3600000000)))
             = Inr True"
    by (simp add: f)
  from b [of "timedelta_days 7"] side
  have 3: "fst (validate_offline demo_lib demo_client
                  (demo_world (File demo_file_null) (timedelta_days 7))) \<noteq> Inr False"
    by (simp add: f)
  from 1 2 3 show ?thesis by simp
qed

end
